theory Spec2Isabelle
  imports Main
begin

section \<open>Configuration (src/config/index.ts)\<close>

text \<open>
  \<^verbatim>\<open>process.env\<close> after \<^verbatim>\<open>dotenv.config()\<close>: a finite table from variable names to
  string values. A variable that is not set reads as \<^verbatim>\<open>undefined\<close>, here \<open>None\<close>.
\<close>

type_synonym process_env = "string \<rightharpoonup> string"

datatype node_env = Development | Production | Test

text \<open>The failure thrown by \<^verbatim>\<open>envSchema.parse\<close>: the offending field and the value received.\<close>

datatype zod_error = Invalid_enum_value string string

record env_vars =
  NODE_ENV :: node_env
  PORT :: string

text \<open>\<^verbatim>\<open>z.enum(['development', 'production', 'test'])\<close>: exact, case-sensitive membership.\<close>

definition z_enum :: "string \<Rightarrow> node_env option" where
  "z_enum v =
     (if v = ''development'' then Some Development
      else if v = ''production'' then Some Production
      else if v = ''test'' then Some Test
      else None)"

text \<open>
  \<^verbatim>\<open>envSchema.parse(process.env)\<close>. A default replaces an undefined field only; a field that
  is present is validated. \<^verbatim>\<open>z.string()\<close> accepts every value an environment variable can
  hold, so the \<^verbatim>\<open>PORT\<close> field never fails.
\<close>

definition envSchema_parse :: "process_env \<Rightarrow> zod_error + env_vars" where
  "envSchema_parse e =
     (case (case e ''NODE_ENV'' of
              None \<Rightarrow> Inr Development
            | Some v \<Rightarrow> (case z_enum v of
                          None \<Rightarrow> Inl (Invalid_enum_value ''NODE_ENV'' v)
                        | Some m \<Rightarrow> Inr m)) of
        Inl err \<Rightarrow> Inl err
      | Inr m \<Rightarrow>
          Inr \<lparr>NODE_ENV = m,
               PORT = (case e ''PORT'' of None \<Rightarrow> ''3000'' | Some p \<Rightarrow> p)\<rparr>)"

text \<open>
  \<^verbatim>\<open>parseInt(s, 10)\<close>: leading white space is skipped, one sign is read, then the longest
  run of decimal digits; with no digit the result is \<^verbatim>\<open>NaN\<close>, here \<open>None\<close>. Whatever
  follows the digits is ignored. (White space is the ASCII set; the rounding of results
  beyond \<open>2^53\<close> is not modelled.)
\<close>

definition is_space :: "char \<Rightarrow> bool" where
  "is_space c = (of_char c \<in> {9, 10, 11, 12, 13, 32 :: nat})"

definition is_digit :: "char \<Rightarrow> bool" where
  "is_digit c = (48 \<le> (of_char c :: nat) \<and> (of_char c :: nat) \<le> 57)"

definition digit_val :: "char \<Rightarrow> int" where
  "digit_val c = int (of_char c) - 48"

definition digits_val :: "string \<Rightarrow> int" where
  "digits_val ds = foldl (\<lambda>a c. 10 * a + digit_val c) 0 ds"

definition parseInt :: "string \<Rightarrow> int option" where
  "parseInt s =
     (let s1 = dropWhile is_space s;
          neg = (s1 \<noteq> [] \<and> hd s1 = CHR ''-'');
          s2 = (if s1 \<noteq> [] \<and> (hd s1 = CHR ''-'' \<or> hd s1 = CHR ''+'') then tl s1 else s1);
          ds = takeWhile is_digit s2
      in if ds = [] then None
         else Some (if neg then - digits_val ds else digits_val ds))"

record config =
  env :: node_env
  port :: "int option"
  isProduction :: bool
  isDevelopment :: bool
  isTest :: bool

text \<open>
  The module body: parse, then build the exported object \<^verbatim>\<open>config\<close>. A throw of \<^verbatim>\<open>parse\<close>
  at module level leaves the process without a configuration: the \<open>Inl\<close> branch.
\<close>

definition load_config :: "process_env \<Rightarrow> zod_error + config" where
  "load_config e =
     (case envSchema_parse e of
        Inl err \<Rightarrow> Inl err
      | Inr envVars \<Rightarrow>
          Inr \<lparr>env = NODE_ENV envVars,
               port = parseInt (PORT envVars),
               isProduction = (NODE_ENV envVars = Production),
               isDevelopment = (NODE_ENV envVars = Development),
               isTest = (NODE_ENV envVars = Test)\<rparr>)"

section \<open>Logging sink (src/utils/logger.ts)\<close>

text \<open>The npm levels of winston, most severe first.\<close>

datatype level = Error | Warn | Info | Http | Verbose | Debug | Silly

fun severity :: "level \<Rightarrow> nat" where
  "severity Error = 0"
| "severity Warn = 1"
| "severity Info = 2"
| "severity Http = 3"
| "severity Verbose = 4"
| "severity Debug = 5"
| "severity Silly = 6"

datatype format_step = Colorize | Timestamp | Printf | Json_format

text \<open>The template of the development profile: \<^verbatim>\<open>`[${timestamp}] ${level}: ${message}`\<close>.\<close>

definition printf_line :: "string \<Rightarrow> string \<Rightarrow> string \<Rightarrow> string" where
  "printf_line timestamp lvl message = ''['' @ timestamp @ ''] '' @ lvl @ '': '' @ message"

datatype profile = Development_format | Production_format

definition formats :: "profile \<Rightarrow> format_step list" where
  "formats p =
     (case p of
        Development_format \<Rightarrow> [Colorize, Timestamp, Printf]
      | Production_format \<Rightarrow> [Timestamp, Json_format])"

datatype destination = Console | File string

record transport =
  target :: destination
  own_level :: "level option"

record logger =
  min_level :: level
  format :: "format_step list"
  transports :: "transport list"

definition createLogger :: "config \<Rightarrow> logger" where
  "createLogger cfg =
     \<lparr>min_level = (if isProduction cfg then Info else Debug),
      format = (if isProduction cfg then formats Production_format
                else formats Development_format),
      transports =
        [\<lparr>target = Console, own_level = None\<rparr>,
         \<lparr>target = File ''error.log'', own_level = Some Error\<rparr>,
         \<lparr>target = File ''combined.log'', own_level = None\<rparr>]\<rparr>"

text \<open>
  A transport writes a record when the record is at least as severe as the transport's
  own level, or as the logger's level when the transport has none.
\<close>

definition accepts :: "logger \<Rightarrow> transport \<Rightarrow> level \<Rightarrow> bool" where
  "accepts lg t lv =
     (severity lv \<le> severity (case own_level t of None \<Rightarrow> min_level lg | Some l \<Rightarrow> l))"

definition destinations :: "logger \<Rightarrow> level \<Rightarrow> destination list" where
  "destinations lg lv = map target (filter (\<lambda>t. accepts lg t lv) (transports lg))"

text \<open>The sink's contents: every line written, with where it went, oldest first.\<close>

type_synonym sink = "(destination \<times> level \<times> string) list"

definition log_write :: "logger \<Rightarrow> level \<Rightarrow> string \<Rightarrow> sink \<Rightarrow> sink" where
  "log_write lg lv message snk = snk @ map (\<lambda>d. (d, lv, message)) (destinations lg lv)"

section \<open>Requests, responses and failures\<close>

datatype http_method = GET | HEAD | POST | PUT | DELETE | PATCH | OPTIONS

text \<open>
  What the pipeline reads of a request: the method, the path without its query, the
  client address (the rate limiter's key) and the arrival time in milliseconds.
\<close>

record request =
  meth :: http_method
  path :: string
  ip :: string
  time :: nat

datatype json = JString string | JObject "(string \<times> json) list"

datatype response =
    Json nat json
    \<comment> \<open>\<^verbatim>\<open>res.status(n).json(body)\<close>\<close>
  | Send "(string \<times> string) list" json
    \<comment> \<open>\<^verbatim>\<open>res.setHeader(...); res.send(body)\<close>\<close>
  | Rejected
    \<comment> \<open>the rate limiter's rejection\<close>
  | Foreign nat string
    \<comment> \<open>an answer produced inside a third-party stage or an absent router\<close>
  | Unhandled
    \<comment> \<open>the framework's own answer when the stack is exhausted\<close>

text \<open>
  \<^verbatim>\<open>class CustomError extends Error { constructor(public message: string,
  public statusCode: number = 500) }\<close> (README, Error Handling); every other thrown value
  is \<open>Unclassified\<close>, with its detail (message, stack) as text.
\<close>

datatype failure = CustomError string nat | Unclassified string

definition new_CustomError :: "string \<Rightarrow> nat option \<Rightarrow> failure" where
  "new_CustomError message statusCode =
     CustomError message (case statusCode of None \<Rightarrow> 500 | Some n \<Rightarrow> n)"

text \<open>A stage calls \<^verbatim>\<open>next()\<close>, ends the response, or fails (\<^verbatim>\<open>next(err)\<close>, a throw).\<close>

datatype outcome = Next | Respond response | Throw failure

section \<open>Rate limiter\<close>

text \<open>The options passed in src/app.ts; \<^verbatim>\<open>max\<close> is \<open>max_hits\<close> here.\<close>

record limiter_options =
  windowMs :: nat
  max_hits :: nat

text \<open>The store: for each client key, the hits counted in its window and the window's end.\<close>

type_synonym store = "string \<rightharpoonup> nat \<times> nat"

text \<open>
  Modelled from the spec: \<^verbatim>\<open>rateLimit\<close> is the dependency express-rate-limit, whose code is
  not among the sources; only its options are (\<^verbatim>\<open>windowMs\<close>, \<^verbatim>\<open>max\<close>). Spec 3 and 4.2: an
  entry is created on the first request from a key and expires with the window; each
  request increments the key's counter within the current window; the request is rejected
  once the counter exceeds the ceiling, otherwise passed on unchanged.
\<close>

definition increment :: "limiter_options \<Rightarrow> store \<Rightarrow> string \<Rightarrow> nat \<Rightarrow> nat \<times> store" where
  "increment opts s key now =
     (case s key of
        None \<Rightarrow> (1, s(key \<mapsto> (1, now + windowMs opts)))
      | Some (n, resetTime) \<Rightarrow>
          if now < resetTime then (n + 1, s(key \<mapsto> (n + 1, resetTime)))
          else (1, s(key \<mapsto> (1, now + windowMs opts))))"

text \<open>
  Modelled from the spec: the stage that \<^verbatim>\<open>rateLimit(options)\<close> returns (spec 4.2). It counts
  the request under the client's address and rejects it when the count is beyond the
  ceiling; otherwise it calls \<^verbatim>\<open>next()\<close>.
\<close>

definition rateLimit :: "limiter_options \<Rightarrow> store \<Rightarrow> request \<Rightarrow> outcome \<times> store" where
  "rateLimit opts s r =
     (case increment opts s (ip r) (time r) of
        (n, s') \<Rightarrow> (if max_hits opts < n then Respond Rejected else Next, s'))"

text \<open>The limiter stage alone on a sequence of requests, in arrival order.\<close>

fun limiter_run :: "limiter_options \<Rightarrow> store \<Rightarrow> request list \<Rightarrow> outcome list" where
  "limiter_run opts s [] = []"
| "limiter_run opts s (r # rs) =
     (case rateLimit opts s r of (d, s') \<Rightarrow> d # limiter_run opts s' rs)"

fun limiter_final :: "limiter_options \<Rightarrow> store \<Rightarrow> request list \<Rightarrow> store" where
  "limiter_final opts s [] = s"
| "limiter_final opts s (r # rs) = limiter_final opts (snd (rateLimit opts s r)) rs"

text \<open>The decisions taken for the requests of one client.\<close>

definition decisions_for :: "string \<Rightarrow> request list \<Rightarrow> outcome list \<Rightarrow> outcome list" where
  "decisions_for key rs ds = map snd (filter (\<lambda>(r, d). ip r = key) (zip rs ds))"

section \<open>The application (src/app.ts, src/routes/index.ts)\<close>

datatype handler =
    Helmet | Cors | Hpp
  | Limiter limiter_options
  | Express_json
  | Express_urlencoded bool
  | Compression
  | Morgan string
  | Swagger_serve | Swagger_setup
  | Api_docs_json
  | Routes
  | HealthRouter
  | Health
  | Index
  | Not_found
  | ErrorHandler

text \<open>
  One entry of the application's stack. \<^verbatim>\<open>app.use\<close> registers for every method and for the
  paths below its mount point; \<^verbatim>\<open>app.get\<close> for GET and for the whole path.
\<close>

record layer =
  verb :: "http_method option"
  mount :: string
  exact :: bool
  fn :: handler

type_synonym app = "layer list"

definition express :: app where
  "express = []"

definition app_use :: "string \<Rightarrow> handler list \<Rightarrow> app \<Rightarrow> app" where
  "app_use p fns a = a @ map (\<lambda>f. \<lparr>verb = None, mount = p, exact = False, fn = f\<rparr>) fns"

definition app_get :: "string \<Rightarrow> handler \<Rightarrow> app \<Rightarrow> app" where
  "app_get p f a = a @ [\<lparr>verb = Some GET, mount = p, exact = True, fn = f\<rparr>]"

definition limiter :: limiter_options where
  "limiter = \<lparr>windowMs = 15 * 60 * 1000, max_hits = 100\<rparr>"

definition createApp :: app where
  "createApp =
     (let app = express;
          app = app_use ''/'' [Helmet] app;
          app = app_use ''/'' [Cors] app;
          app = app_use ''/'' [Hpp] app;
          app = app_use ''/'' [Limiter limiter] app;
          app = app_use ''/'' [Express_json] app;
          app = app_use ''/'' [Express_urlencoded True] app;
          app = app_use ''/'' [Compression] app;
          app = app_use ''/'' [Morgan ''combined''] app;
          app = app_use ''/api-docs'' [Swagger_serve, Swagger_setup] app;
          app = app_get ''/api-docs.json'' Api_docs_json app;
          app = app_use ''/api'' [Routes] app;
          app = app_get ''/health'' Health app;
          app = app_get ''/'' Index app;
          app = app_use ''*'' [Not_found] app;
          app = app_use ''/'' [ErrorHandler] app
      in app)"

definition routes :: app where
  "routes = app_use ''/health'' [HealthRouter] express"

text \<open>The stages of the spec's section 4.1, and the stage each registered function belongs to.\<close>

datatype stage =
    Secure_headers | Cross_origin_policy | Parameter_pollution_guard | Rate_limiter
  | Body_decoder | Compression_stage | Access_logger | Documentation_endpoints
  | Route_table | Auxiliary_endpoints | Unmatched_responder | Error_boundary

fun stage_of :: "handler \<Rightarrow> stage" where
  "stage_of Helmet = Secure_headers"
| "stage_of Cors = Cross_origin_policy"
| "stage_of Hpp = Parameter_pollution_guard"
| "stage_of (Limiter opts) = Rate_limiter"
| "stage_of Express_json = Body_decoder"
| "stage_of (Express_urlencoded extended) = Body_decoder"
| "stage_of Compression = Compression_stage"
| "stage_of (Morgan fmt) = Access_logger"
| "stage_of Swagger_serve = Documentation_endpoints"
| "stage_of Swagger_setup = Documentation_endpoints"
| "stage_of Api_docs_json = Documentation_endpoints"
| "stage_of Routes = Route_table"
| "stage_of HealthRouter = Route_table"
| "stage_of Health = Auxiliary_endpoints"
| "stage_of Index = Auxiliary_endpoints"
| "stage_of Not_found = Unmatched_responder"
| "stage_of ErrorHandler = Error_boundary"

section \<open>Dispatch\<close>

text \<open>
  How the framework (Express 4) walks the stack. A path is the request's pathname as
  received, percent-escapes included. A registered path becomes a pattern that is matched
  case-insensitively and ignores one trailing slash; a mount point of \<^verbatim>\<open>app.use\<close> matches the
  paths below it at a segment boundary, and the default mount point \<^verbatim>\<open>'/'\<close> matches every
  path. A GET route also serves HEAD.
\<close>

definition lower :: "char \<Rightarrow> char" where
  "lower c =
     (if 65 \<le> (of_char c :: nat) \<and> (of_char c :: nat) \<le> 90
      then char_of (of_char c + 32 :: nat) else c)"

definition strip_slash :: "string \<Rightarrow> string" where
  "strip_slash p = (if p \<noteq> [] \<and> last p = CHR ''/'' then butlast p else p)"

definition method_match :: "http_method option \<Rightarrow> http_method \<Rightarrow> bool" where
  "method_match v m =
     (case v of None \<Rightarrow> True | Some w \<Rightarrow> m = w \<or> (w = GET \<and> m = HEAD))"

definition path_match :: "string \<Rightarrow> bool \<Rightarrow> string \<Rightarrow> bool" where
  "path_match mnt ex pth =
     (let p = map lower (strip_slash mnt); q = map lower pth
      in if ex then q = p \<or> q = p @ ''/''
         else mnt = ''/'' \<or>
              (take (length p) q = p \<and>
               (drop (length p) q = [] \<or> hd (drop (length p) q) = CHR ''/'')))"

definition layer_match :: "layer \<Rightarrow> request \<Rightarrow> bool" where
  "layer_match l r = (method_match (verb l) (meth r) \<and> path_match (mount l) (exact l) (path r))"

text \<open>
  \<^verbatim>\<open>decodeURIComponent\<close>, as far as it can fail: every \<^verbatim>\<open>%\<close> must be followed by two
  hexadecimal digits, and an escaped octet of 128 or more must open a well-formed UTF-8
  sequence whose further octets are escaped too and follow at once (no overlong form, no
  surrogate, nothing beyond U+10FFFF).
\<close>

definition hex_digit :: "char \<Rightarrow> nat option" where
  "hex_digit c =
     (let n = (of_char c :: nat)
      in if 48 \<le> n \<and> n \<le> 57 then Some (n - 48)
         else if 65 \<le> n \<and> n \<le> 70 then Some (n - 55)
         else if 97 \<le> n \<and> n \<le> 102 then Some (n - 87)
         else None)"

datatype piece = Literal char | Escaped nat

fun unescape :: "string \<Rightarrow> piece list option" where
  "unescape [] = Some []"
| "unescape (c # cs) =
     (if c = CHR ''%'' then
        (case cs of
           h # l # rest \<Rightarrow>
             (case (hex_digit h, hex_digit l) of
                (Some a, Some b) \<Rightarrow> map_option ((#) (Escaped (16 * a + b))) (unescape rest)
              | _ \<Rightarrow> None)
         | _ \<Rightarrow> None)
      else map_option ((#) (Literal c)) (unescape cs))"

definition continuation :: "nat \<Rightarrow> bool" where
  "continuation b = (128 \<le> b \<and> b \<le> 191)"

fun well_formed :: "piece list \<Rightarrow> bool" where
  "well_formed [] = True"
| "well_formed (Literal c # us) = well_formed us"
| "well_formed (Escaped b # us) =
     (if b < 128 then well_formed us
      else if 194 \<le> b \<and> b \<le> 223 then
        (case us of
           Escaped c1 # rest \<Rightarrow> continuation c1 \<and> well_formed rest
         | _ \<Rightarrow> False)
      else if 224 \<le> b \<and> b \<le> 239 then
        (case us of
           Escaped c1 # Escaped c2 # rest \<Rightarrow>
             (if b = 224 then 160 \<le> c1 \<and> c1 \<le> 191
              else if b = 237 then 128 \<le> c1 \<and> c1 \<le> 159
              else continuation c1)
             \<and> continuation c2 \<and> well_formed rest
         | _ \<Rightarrow> False)
      else if 240 \<le> b \<and> b \<le> 244 then
        (case us of
           Escaped c1 # Escaped c2 # Escaped c3 # rest \<Rightarrow>
             (if b = 240 then 144 \<le> c1 \<and> c1 \<le> 191
              else if b = 244 then 128 \<le> c1 \<and> c1 \<le> 143
              else continuation c1)
             \<and> continuation c2 \<and> continuation c3 \<and> well_formed rest
         | _ \<Rightarrow> False)
      else False)"

definition decodable :: "string \<Rightarrow> bool" where
  "decodable s = (case unescape s of None \<Rightarrow> False | Some us \<Rightarrow> well_formed us)"

text \<open>
  The framework's \<^verbatim>\<open>decode_param\<close>: the failure it throws when the value does not decode
  (a \<^verbatim>\<open>URIError\<close> with the message below), none otherwise. The decoded value is not used by
  this application.
\<close>

definition decode_param :: "string \<Rightarrow> failure option" where
  "decode_param val =
     (if val = [] \<or> decodable val then None
      else Some (Unclassified (''Failed to decode param '' @ [CHR 0x27] @ val @ [CHR 0x27])))"

text \<open>
  Matching a layer against a request. The mount point \<^verbatim>\<open>'*'\<close> of \<^verbatim>\<open>app.use\<close> matches every
  path and keeps it as a parameter, which it decodes: a path that does not decode makes the
  match itself fail with an error (\<open>Broken\<close>), and the walk goes on in error mode.
\<close>

datatype matching = Miss | Hit | Broken failure

definition match_layer :: "layer \<Rightarrow> request \<Rightarrow> matching" where
  "match_layer l r =
     (if \<not> exact l \<and> mount l = ''*'' then
        (case decode_param (path r) of None \<Rightarrow> Hit | Some err \<Rightarrow> Broken err)
      else if layer_match l r then Hit
      else Miss)"

text \<open>
  Below a mount point of \<^verbatim>\<open>app.use\<close> the handler sees the path with the matched part
  removed: the mount point, and the slash after it when that slash is the last character or
  is followed by another slash. Under \<^verbatim>\<open>'*'\<close> the whole path is the matched part. A leading
  slash is put back when the rest has none.
\<close>

definition strip_mount :: "layer \<Rightarrow> request \<Rightarrow> request" where
  "strip_mount l r =
     (if exact l \<or> mount l = ''/'' then r
      else if mount l = ''*'' then r\<lparr>path := ''/''\<rparr>
      else let rest = drop (length (strip_slash (mount l))) (path r);
               rest' = (case rest of
                          [] \<Rightarrow> []
                        | c # t \<Rightarrow>
                            if c = CHR ''/'' \<and> (t = [] \<or> hd t = CHR ''/'') then t else rest)
           in r\<lparr>path := (if rest' = [] \<or> hd rest' \<noteq> CHR ''/'' then CHR ''/'' # rest' else rest')\<rparr>)"

text \<open>
  What the pipeline takes from outside this repository's sources: the behaviour of the
  third-party stages and of the absent health router on a request, the access logger's
  line for a request and its response, the generated documentation, and the wording of
  the error boundary's generic message.
\<close>

record collaborators =
  middleware :: "handler \<Rightarrow> request \<Rightarrow> outcome"
  combined :: "request \<Rightarrow> response \<Rightarrow> string"
  swaggerSpec :: json
  generic_message :: string

record state =
  hits :: store
  logged :: sink

definition error_body :: "string \<Rightarrow> json" where
  "error_body message = JObject [(''status'', JString ''error''), (''message'', JString message)]"

text \<open>
  Modelled from the spec: \<^verbatim>\<open>errorHandler\<close> (src/middleware/error.middleware.ts) is imported by
  the application but is not among the sources. Spec 4.3: a value of the Application Error
  shape yields the JSON body \<^verbatim>\<open>{status: "error", message}\<close> with the carried status code;
  any other value is logged in full to the logging sink and yields the same shape with
  status 500 and a generic message.
\<close>

definition errorHandler :: "collaborators \<Rightarrow> logger \<Rightarrow> failure \<Rightarrow> state \<Rightarrow> response \<times> state" where
  "errorHandler c lg err st =
     (case err of
        CustomError message statusCode \<Rightarrow> (Json statusCode (error_body message), st)
      | Unclassified detail \<Rightarrow>
          (Json 500 (error_body (generic_message c)),
           st\<lparr>logged := log_write lg Error detail (logged st)\<rparr>))"

text \<open>The router of src/routes/index.ts: falls through to the application when nothing answers.\<close>

fun router_handle :: "collaborators \<Rightarrow> app \<Rightarrow> request \<Rightarrow> outcome" where
  "router_handle c [] r = Next"
| "router_handle c (l # ls) r =
     (case match_layer l r of
        Miss \<Rightarrow> router_handle c ls r
      | Broken err \<Rightarrow> Throw err
      | Hit \<Rightarrow>
          (case middleware c (fn l) (strip_mount l r) of
             Next \<Rightarrow> router_handle c ls r
           | out \<Rightarrow> out))"

text \<open>The handlers written in src/app.ts; every other function is a collaborator's.\<close>

definition run_handler :: "collaborators \<Rightarrow> handler \<Rightarrow> request \<Rightarrow> outcome" where
  "run_handler c h r =
     (case h of
        Api_docs_json \<Rightarrow>
          Respond (Send [(''Content-Type'', ''application/json'')] (swaggerSpec c))
      | Routes \<Rightarrow> router_handle c routes r
      | Health \<Rightarrow> Respond (Json 200 (JObject [(''status'', JString ''ok'')]))
      | Index \<Rightarrow> Respond (Json 200 (JObject [(''message'', JString ''Welcome to the API'')]))
      | Not_found \<Rightarrow> Respond (Json 404 (error_body ''Route not found''))
      | _ \<Rightarrow> middleware c h r)"

definition trim :: "string \<Rightarrow> string" where
  "trim s = rev (dropWhile is_space (rev (dropWhile is_space s)))"

text \<open>
  After a failure only error-handling functions run: the walk skips every other layer, and
  every layer that does not match, until it finds the error boundary.
\<close>

fun handle_error ::
  "collaborators \<Rightarrow> logger \<Rightarrow> app \<Rightarrow> failure \<Rightarrow> request \<Rightarrow> state \<Rightarrow> response \<times> state" where
  "handle_error c lg [] err r st = (Unhandled, st)"
| "handle_error c lg (l # ls) err r st =
     (if fn l = ErrorHandler \<and> match_layer l r = Hit then errorHandler c lg err st
      else handle_error c lg ls err r st)"

text \<open>
  The normal walk. A layer whose match fails with an error sends the walk into error mode;
  error-handling functions are skipped. The limiter updates its store;
  the access logger wraps what follows and writes one \<open>info\<close> line once the response is
  known (\<^verbatim>\<open>stream: { write: (message) => logger.info(message.trim()) }\<close>).
\<close>

fun handle ::
  "collaborators \<Rightarrow> logger \<Rightarrow> app \<Rightarrow> request \<Rightarrow> state \<Rightarrow> response \<times> state" where
  "handle c lg [] r st = (Unhandled, st)"
| "handle c lg (l # ls) r st =
     (case match_layer l r of
        Miss \<Rightarrow> handle c lg ls r st
      | Broken err \<Rightarrow> handle_error c lg ls err r st
      | Hit \<Rightarrow>
          (case fn l of
             ErrorHandler \<Rightarrow> handle c lg ls r st
           | Limiter opts \<Rightarrow>
               (case rateLimit opts (hits st) r of
                  (Next, s') \<Rightarrow> handle c lg ls r (st\<lparr>hits := s'\<rparr>)
                | (Respond res, s') \<Rightarrow> (res, st\<lparr>hits := s'\<rparr>)
                | (Throw err, s') \<Rightarrow> handle_error c lg ls err r (st\<lparr>hits := s'\<rparr>))
           | Morgan fmt \<Rightarrow>
               (case handle c lg ls r st of
                  (res, st') \<Rightarrow>
                    (res, st'\<lparr>logged := log_write lg Info (trim (combined c r res)) (logged st')\<rparr>))
           | h \<Rightarrow>
               (case run_handler c h (strip_mount l r) of
                  Next \<Rightarrow> handle c lg ls r st
                | Respond res \<Rightarrow> (res, st)
                | Throw err \<Rightarrow> handle_error c lg ls err r st)))"

text \<open>One request against the application built by \<open>createApp\<close>, under a loaded configuration.\<close>

definition serve :: "collaborators \<Rightarrow> config \<Rightarrow> request \<Rightarrow> state \<Rightarrow> response \<times> state" where
  "serve c cfg r st = handle c (createLogger cfg) createApp r st"

text \<open>Requests served one after the other: the responses, and the state left behind.\<close>

fun serve_all ::
  "collaborators \<Rightarrow> config \<Rightarrow> request list \<Rightarrow> state \<Rightarrow> response list \<times> state" where
  "serve_all c cfg [] st = ([], st)"
| "serve_all c cfg (r # rs) st =
     (case serve c cfg r st of
        (res, st') \<Rightarrow> (case serve_all c cfg rs st' of (ress, st'') \<Rightarrow> (res # ress, st'')))"

definition initial :: state where
  "initial = \<lparr>hits = Map.empty, logged = []\<rparr>"

text \<open>
  A request gets past the stages registered ahead of the routes: each third-party stage
  hands it on (\<open>forwards\<close>) and the limiter admits it.
\<close>

definition forwards :: "collaborators \<Rightarrow> request \<Rightarrow> bool" where
  "forwards c r =
     (\<forall>h \<in> set [Helmet, Cors, Hpp, Express_json, Express_urlencoded True, Compression].
         middleware c h r = Next)"

definition passes :: "collaborators \<Rightarrow> request \<Rightarrow> state \<Rightarrow> bool" where
  "passes c r st = (forwards c r \<and> fst (rateLimit limiter (hits st) r) = Next)"

text \<open>
  The layers registered for a path of their own, and a request that no registered route
  matches: no such layer of the application does, or the one that does is the router, none
  of whose own routes matches the rest of the path.
\<close>

definition routed :: "layer \<Rightarrow> bool" where
  "routed l = (mount l \<noteq> ''*'' \<and> (exact l \<or> mount l \<noteq> ''/''))"

definition unmatched :: "request \<Rightarrow> bool" where
  "unmatched r =
     (\<forall>l \<in> set (filter routed createApp).
        if fn l = Routes
        then layer_match l r \<longrightarrow> (\<forall>k \<in> set routes. \<not> layer_match k (strip_mount l r))
        else \<not> layer_match l r)"

text \<open>
  The layers registered after the access logger: the documentation, the routes, the
  auxiliary endpoints, the catch-all and the error boundary.
\<close>

definition routing :: app where
  "routing = drop 8 createApp"

section \<open>Sample inputs\<close>

text \<open>Collaborators whose stages all hand every request on.\<close>

definition quiet :: collaborators where
  "quiet =
     \<lparr>middleware = (\<lambda>h r. Next),
      combined = (\<lambda>r res. path r),
      swaggerSpec = JObject [],
      generic_message = ''Internal Server Error''\<rparr>"

text \<open>The configuration loaded from an empty environment.\<close>

definition default_config :: config where
  "default_config =
     \<lparr>env = Development, port = Some 3000, isProduction = False, isDevelopment = True,
      isTest = False\<rparr>"

text \<open>A liveness probe and a request for a path nobody registered, from one client.\<close>

definition probe :: request where
  "probe = \<lparr>meth = GET, path = ''/health'', ip = ''10.0.0.1'', time = 0\<rparr>"

definition stray :: request where
  "stray = \<lparr>meth = POST, path = ''/nope'', ip = ''10.0.0.1'', time = 0\<rparr>"

definition stray_escape :: request where
  "stray_escape = \<lparr>meth = GET, path = ''/%zz'', ip = ''10.0.0.3'', time = 0\<rparr>"

definition stray_api :: request where
  "stray_api = \<lparr>meth = GET, path = ''/api/users'', ip = ''10.0.0.2'', time = 0\<rparr>"

section \<open>The registered stack\<close>

lemma createApp_layers:
  "createApp =
     [\<lparr>verb = None, mount = ''/'', exact = False, fn = Helmet\<rparr>,
      \<lparr>verb = None, mount = ''/'', exact = False, fn = Cors\<rparr>,
      \<lparr>verb = None, mount = ''/'', exact = False, fn = Hpp\<rparr>,
      \<lparr>verb = None, mount = ''/'', exact = False, fn = Limiter limiter\<rparr>,
      \<lparr>verb = None, mount = ''/'', exact = False, fn = Express_json\<rparr>,
      \<lparr>verb = None, mount = ''/'', exact = False, fn = Express_urlencoded True\<rparr>,
      \<lparr>verb = None, mount = ''/'', exact = False, fn = Compression\<rparr>,
      \<lparr>verb = None, mount = ''/'', exact = False, fn = Morgan ''combined''\<rparr>,
      \<lparr>verb = None, mount = ''/api-docs'', exact = False, fn = Swagger_serve\<rparr>,
      \<lparr>verb = None, mount = ''/api-docs'', exact = False, fn = Swagger_setup\<rparr>,
      \<lparr>verb = Some GET, mount = ''/api-docs.json'', exact = True, fn = Api_docs_json\<rparr>,
      \<lparr>verb = None, mount = ''/api'', exact = False, fn = Routes\<rparr>,
      \<lparr>verb = Some GET, mount = ''/health'', exact = True, fn = Health\<rparr>,
      \<lparr>verb = Some GET, mount = ''/'', exact = True, fn = Index\<rparr>,
      \<lparr>verb = None, mount = ''*'', exact = False, fn = Not_found\<rparr>,
      \<lparr>verb = None, mount = ''/'', exact = False, fn = ErrorHandler\<rparr>]"
  by (simp add: createApp_def express_def app_use_def app_get_def)

lemma routing_layers:
  "routing =
     [\<lparr>verb = None, mount = ''/api-docs'', exact = False, fn = Swagger_serve\<rparr>,
      \<lparr>verb = None, mount = ''/api-docs'', exact = False, fn = Swagger_setup\<rparr>,
      \<lparr>verb = Some GET, mount = ''/api-docs.json'', exact = True, fn = Api_docs_json\<rparr>,
      \<lparr>verb = None, mount = ''/api'', exact = False, fn = Routes\<rparr>,
      \<lparr>verb = Some GET, mount = ''/health'', exact = True, fn = Health\<rparr>,
      \<lparr>verb = Some GET, mount = ''/'', exact = True, fn = Index\<rparr>,
      \<lparr>verb = None, mount = ''*'', exact = False, fn = Not_found\<rparr>,
      \<lparr>verb = None, mount = ''/'', exact = False, fn = ErrorHandler\<rparr>]"
  by (simp add: routing_def createApp_layers)

text \<open>
  C1. \<open>createApp\<close> registers its functions in the order of the spec's section 4.1: secure
  headers, cross-origin policy, parameter-pollution guard, rate limiter (15 minutes, 100
  requests), body decoder (JSON, then URL-encoded), compression, access logger,
  documentation endpoints, the route table under \<^verbatim>\<open>/api\<close>, liveness probe and welcome root,
  the catch-all responder, and the error boundary last. The builder takes no argument, so
  every invocation yields this stack.
\<close>

theorem createApp_registration_order:
  "map fn createApp =
     [Helmet, Cors, Hpp, Limiter \<lparr>windowMs = 900000, max_hits = 100\<rparr>, Express_json,
      Express_urlencoded True, Compression, Morgan ''combined'', Swagger_serve, Swagger_setup,
      Api_docs_json, Routes, Health, Index, Not_found, ErrorHandler]
   \<and> remdups_adj (map (\<lambda>l. stage_of (fn l)) createApp) =
     [Secure_headers, Cross_origin_policy, Parameter_pollution_guard, Rate_limiter, Body_decoder,
      Compression_stage, Access_logger, Documentation_endpoints, Route_table,
      Auxiliary_endpoints, Unmatched_responder, Error_boundary]
   \<and> map mount (filter (\<lambda>l. fn l = Routes) createApp) = [''/api'']
   \<and> fn (last createApp) = ErrorHandler"
  by (simp add: createApp_layers limiter_def)

section \<open>Configuration\<close>

lemmas parse_defs = load_config_def envSchema_parse_def z_enum_def

lemmas parseInt_defs = parseInt_def is_space_def is_digit_def digits_val_def digit_val_def

lemma parseInt_default: "parseInt ''3000'' = Some 3000"
  by (simp add: parseInt_defs)

lemma z_enum_None: "z_enum v = None \<longleftrightarrow> v \<notin> {''development'', ''production'', ''test''}"
  by (simp add: z_enum_def)

lemma load_config_flags:
  "load_config e = Inr cfg \<Longrightarrow>
     isProduction cfg = (env cfg = Production) \<and> isDevelopment cfg = (env cfg = Development)
     \<and> isTest cfg = (env cfg = Test)"
  by (auto simp: load_config_def split: sum.splits)

text \<open>
  C4, as stated, fails: a malformed \<^verbatim>\<open>PORT\<close> does not stop the start. With \<^verbatim>\<open>PORT=abc\<close> the
  configuration loads, and its port is \<^verbatim>\<open>NaN\<close>.
\<close>

theorem load_config_accepts_malformed_port:
  "load_config [''PORT'' \<mapsto> ''abc''] =
     Inr \<lparr>env = Development, port = None, isProduction = False, isDevelopment = True,
          isTest = False\<rparr>"
  by (simp add: parse_defs parseInt_defs)

text \<open>
  C4, amended. Loading the configuration fails exactly when \<^verbatim>\<open>NODE_ENV\<close> is set to a value
  other than development, production or test; no field is required. An absent \<^verbatim>\<open>NODE_ENV\<close>
  yields development and an absent \<^verbatim>\<open>PORT\<close> yields 3000. A \<^verbatim>\<open>PORT\<close> that is set is never
  rejected: the port is whatever \<^verbatim>\<open>parseInt\<close> makes of it.
\<close>

theorem load_config_fails_fast:
  "((\<exists>err. load_config e = Inl err) \<longleftrightarrow>
      (\<exists>v. e ''NODE_ENV'' = Some v \<and> v \<notin> {''development'', ''production'', ''test''}))
   \<and> (e ''NODE_ENV'' = None \<longrightarrow> (\<exists>cfg. load_config e = Inr cfg \<and> env cfg = Development))
   \<and> (e ''PORT'' = None \<longrightarrow> (\<forall>cfg. load_config e = Inr cfg \<longrightarrow> port cfg = Some 3000))
   \<and> (\<forall>p cfg. e ''PORT'' = Some p \<and> load_config e = Inr cfg \<longrightarrow> port cfg = parseInt p)"
proof (cases "e ''NODE_ENV''")
  case None
  then show ?thesis
    by (auto simp: load_config_def envSchema_parse_def parseInt_default split: option.splits)
next
  case (Some v)
  show ?thesis
  proof (cases "z_enum v")
    case None
    then have bad: "v \<notin> {''development'', ''production'', ''test''}"
      by (simp add: z_enum_None)
    from None Some have "load_config e = Inl (Invalid_enum_value ''NODE_ENV'' v)"
      by (simp add: load_config_def envSchema_parse_def)
    with Some bad show ?thesis by simp
  next
    case (Some m)
    then have good: "v \<in> {''development'', ''production'', ''test''}"
      using z_enum_None [of v] by auto
    from Some \<open>e ''NODE_ENV'' = Some v\<close>
    have "load_config e =
        Inr \<lparr>env = m, port = parseInt (case e ''PORT'' of None \<Rightarrow> ''3000'' | Some p \<Rightarrow> p),
          isProduction = (m = Production), isDevelopment = (m = Development),
          isTest = (m = Test)\<rparr>"
      by (simp add: load_config_def envSchema_parse_def)
    with good \<open>e ''NODE_ENV'' = Some v\<close> show ?thesis
      by (auto simp: parseInt_default)
  qed
qed

theorem load_config_fails_fast_witness:
  "(\<exists>err. load_config [''NODE_ENV'' \<mapsto> ''staging''] = Inl err)
   \<and> (\<exists>cfg. load_config Map.empty = Inr cfg \<and> env cfg = Development \<and> port cfg = Some 3000)"
  using load_config_fails_fast [of "[''NODE_ENV'' \<mapsto> ''staging'']"]
    load_config_fails_fast [of Map.empty]
  by auto

section \<open>Logging sink\<close>

lemmas logger_defs = createLogger_def destinations_def accepts_def formats_def

lemma printf_line_shape:
  "printf_line ''2026-01-01T00:00:00.000Z'' ''info'' ''listening'' =
     ''[2026-01-01T00:00:00.000Z] info: listening''"
  by (simp add: printf_line_def)

lemma destinations_cases:
  "destinations (createLogger cfg) lv =
     (if lv = Error then [Console, File ''error.log'', File ''combined.log'']
      else if severity lv \<le> severity (if isProduction cfg then Info else Debug)
      then [Console, File ''combined.log'']
      else [])"
  by (cases lv) (simp_all add: logger_defs)

text \<open>
  C6, as stated, fails: under the default configuration an \<open>info\<close> record reaches the
  console and \<^verbatim>\<open>combined.log\<close> only, not \<^verbatim>\<open>error.log\<close>; in production a \<open>debug\<close> record
  reaches no destination at all.
\<close>

theorem info_record_skips_error_log:
  "(case load_config Map.empty of
      Inl err \<Rightarrow> []
    | Inr cfg \<Rightarrow> destinations (createLogger cfg) Info) = [Console, File ''combined.log'']
   \<and> (case load_config [''NODE_ENV'' \<mapsto> ''production''] of
      Inl err \<Rightarrow> [Console]
    | Inr cfg \<Rightarrow> destinations (createLogger cfg) Debug) = []"
  by (simp add: parse_defs logger_defs)

text \<open>
  C6, amended. The sink has three destinations: the console, \<^verbatim>\<open>error.log\<close> and
  \<^verbatim>\<open>combined.log\<close>. A record of level \<open>error\<close> is written to all three; any other record at
  or above the sink's minimum level is written to the console and to \<^verbatim>\<open>combined.log\<close>; a
  record below the minimum level is written nowhere.
\<close>

theorem destinations_by_level:
  "map target (transports (createLogger cfg)) = [Console, File ''error.log'', File ''combined.log'']
   \<and> destinations (createLogger cfg) lv =
     (if lv = Error then [Console, File ''error.log'', File ''combined.log'']
      else if severity lv \<le> severity (min_level (createLogger cfg))
      then [Console, File ''combined.log'']
      else [])"
  using destinations_cases [of cfg lv] by (simp add: createLogger_def)

theorem destinations_by_level_witness:
  "destinations (createLogger \<lparr>env = Production, port = Some 3000, isProduction = True,
      isDevelopment = False, isTest = False\<rparr>) Error =
     [Console, File ''error.log'', File ''combined.log'']
   \<and> destinations (createLogger \<lparr>env = Production, port = Some 3000, isProduction = True,
      isDevelopment = False, isTest = False\<rparr>) Warn = [Console, File ''combined.log'']
   \<and> destinations (createLogger \<lparr>env = Production, port = Some 3000, isProduction = True,
      isDevelopment = False, isTest = False\<rparr>) Verbose = []"
  using destinations_by_level [of "\<lparr>env = Production, port = Some 3000, isProduction = True,
      isDevelopment = False, isTest = False\<rparr>" Error]
    destinations_by_level [of "\<lparr>env = Production, port = Some 3000, isProduction = True,
      isDevelopment = False, isTest = False\<rparr>" Warn]
    destinations_by_level [of "\<lparr>env = Production, port = Some 3000, isProduction = True,
      isDevelopment = False, isTest = False\<rparr>" Verbose]
  by (simp add: createLogger_def)

text \<open>
  C7. The sink's profile follows the execution mode of the loaded configuration. In
  production: minimum level \<open>info\<close> (the console receives exactly the records at \<open>info\<close> or
  more severe) and the structured format, a timestamp followed by JSON. In development:
  minimum level \<open>debug\<close> and the colorized, timestamped, one-line template.
\<close>

theorem logger_profile_by_mode:
  assumes "load_config e = Inr cfg"
  shows "(env cfg = Production \<longrightarrow>
            min_level (createLogger cfg) = Info
            \<and> format (createLogger cfg) = [Timestamp, Json_format]
            \<and> (\<forall>lv. Console \<in> set (destinations (createLogger cfg) lv) \<longleftrightarrow>
                  severity lv \<le> severity Info))
       \<and> (env cfg = Development \<longrightarrow>
            min_level (createLogger cfg) = Debug
            \<and> format (createLogger cfg) = [Colorize, Timestamp, Printf]
            \<and> (\<forall>lv. Console \<in> set (destinations (createLogger cfg) lv) \<longleftrightarrow>
                  severity lv \<le> severity Debug))"
  using load_config_flags [OF assms]
  by (auto simp: destinations_cases) (simp_all add: createLogger_def formats_def)

theorem logger_profile_by_mode_witness:
  "min_level (createLogger \<lparr>env = Production, port = Some 8080, isProduction = True,
      isDevelopment = False, isTest = False\<rparr>) = Info
   \<and> format (createLogger \<lparr>env = Production, port = Some 8080, isProduction = True,
      isDevelopment = False, isTest = False\<rparr>) = [Timestamp, Json_format]
   \<and> min_level (createLogger \<lparr>env = Development, port = Some 3000, isProduction = False,
      isDevelopment = True, isTest = False\<rparr>) = Debug
   \<and> format (createLogger \<lparr>env = Development, port = Some 3000, isProduction = False,
      isDevelopment = True, isTest = False\<rparr>) = [Colorize, Timestamp, Printf]"
proof -
  have prod: "load_config [''NODE_ENV'' \<mapsto> ''production'', ''PORT'' \<mapsto> ''8080''] =
      Inr \<lparr>env = Production, port = Some 8080, isProduction = True, isDevelopment = False,
        isTest = False\<rparr>"
    by (simp add: parse_defs parseInt_defs)
  have dev: "load_config Map.empty =
      Inr \<lparr>env = Development, port = Some 3000, isProduction = False, isDevelopment = True,
        isTest = False\<rparr>"
    by (simp add: parse_defs parseInt_defs)
  show ?thesis
    using logger_profile_by_mode [OF prod] logger_profile_by_mode [OF dev] by simp
qed

text \<open>
  C10. With \<^verbatim>\<open>NODE_ENV=test\<close> the configuration loads, is not a production one, and the sink
  has the development profile: minimum level \<open>debug\<close> and the colorized one-line format. The
  sink built is the very one built when \<^verbatim>\<open>NODE_ENV\<close> is development instead.
\<close>

theorem test_mode_uses_development_profile:
  assumes "e ''NODE_ENV'' = Some ''test''"
  shows "\<exists>cfg dev. load_config e = Inr cfg \<and> isTest cfg \<and> \<not> isProduction cfg
           \<and> min_level (createLogger cfg) = Debug
           \<and> format (createLogger cfg) = [Colorize, Timestamp, Printf]
           \<and> load_config (e(''NODE_ENV'' \<mapsto> ''development'')) = Inr dev
           \<and> isDevelopment dev
           \<and> createLogger cfg = createLogger dev"
  using assms by (simp add: parse_defs logger_defs)

theorem test_mode_uses_development_profile_witness:
  "\<exists>cfg. load_config [''NODE_ENV'' \<mapsto> ''test''] = Inr cfg \<and> isTest cfg
     \<and> min_level (createLogger cfg) = Debug
     \<and> format (createLogger cfg) = [Colorize, Timestamp, Printf]"
  using test_mode_uses_development_profile [of "[''NODE_ENV'' \<mapsto> ''test'']"] by auto

section \<open>Rate limiter\<close>

lemma rateLimit_other: "ip r \<noteq> k \<Longrightarrow> snd (rateLimit opts s r) k = s k"
  by (simp add: rateLimit_def increment_def split: option.splits prod.splits)

lemma rateLimit_in_window:
  "s (ip r) = Some (n, reset) \<Longrightarrow> time r < reset \<Longrightarrow>
     rateLimit opts s r =
       (if max_hits opts < n + 1 then Respond Rejected else Next, s(ip r \<mapsto> (n + 1, reset)))"
  by (simp add: rateLimit_def increment_def)

lemma rateLimit_new_window:
  "s (ip r) = None \<or> (\<exists>n reset. s (ip r) = Some (n, reset) \<and> reset \<le> time r) \<Longrightarrow>
     rateLimit opts s r =
       (if max_hits opts < 1 then Respond Rejected else Next,
        s(ip r \<mapsto> (1, time r + windowMs opts)))"
  by (auto simp: rateLimit_def increment_def)

lemma replicate_step_pass:
  "n < c \<Longrightarrow> x # replicate (min m (c - Suc n)) x @ replicate (m - (c - Suc n)) y =
     replicate (min (Suc m) (c - n)) x @ replicate (Suc m - (c - n)) y"
proof -
  assume "n < c"
  then have a: "min (Suc m) (c - n) = Suc (min m (c - Suc n))" by (auto simp: min_def)
  from \<open>n < c\<close> have b: "Suc m - (c - n) = m - (c - Suc n)" by simp
  show ?thesis by (simp add: a b)
qed

lemma replicate_step_reject:
  "\<not> n < c \<Longrightarrow> y # replicate (min m (c - Suc n)) x @ replicate (m - (c - Suc n)) y =
     replicate (min (Suc m) (c - n)) x @ replicate (Suc m - (c - n)) y"
  by simp

lemma decisions_for_Cons:
  "decisions_for k (r # rs) (d # ds) =
     (if ip r = k then d # decisions_for k rs ds else decisions_for k rs ds)"
  by (simp add: decisions_for_def)

lemma limiter_run_Cons:
  "rateLimit opts s r = (d, s') \<Longrightarrow>
     limiter_run opts s (r # rs) = d # limiter_run opts s' rs
     \<and> limiter_final opts s (r # rs) = limiter_final opts s' rs"
  by simp

lemma limiter_run_in_window:
  "s k = Some (n, reset) \<Longrightarrow> \<forall>r \<in> set rs. ip r = k \<longrightarrow> time r < reset \<Longrightarrow>
     decisions_for k rs (limiter_run opts s rs) =
       replicate (min (length (filter (\<lambda>r. ip r = k) rs)) (max_hits opts - n)) Next @
       replicate (length (filter (\<lambda>r. ip r = k) rs) - (max_hits opts - n)) (Respond Rejected)
     \<and> limiter_final opts s rs k = Some (n + length (filter (\<lambda>r. ip r = k) rs), reset)"
proof (induction rs arbitrary: s n)
  case Nil
  then show ?case by (simp add: decisions_for_def)
next
  case (Cons r rs)
  define m where "m = length (filter (\<lambda>r. ip r = k) rs)"
  from Cons.prems(2) have rest: "\<forall>r \<in> set rs. ip r = k \<longrightarrow> time r < reset" by simp
  show ?case
  proof (cases "ip r = k")
    case False
    obtain d s' where rl: "rateLimit opts s r = (d, s')"
      by (cases "rateLimit opts s r")
    from False Cons.prems(1) have keep: "s' k = Some (n, reset)"
      using rateLimit_other [where r = r and k = k and opts = opts and s = s] rl by simp
    from False have count: "length (filter (\<lambda>r. ip r = k) (r # rs)) = m"
      by (simp add: m_def)
    show ?thesis
      unfolding count
      using Cons.IH [of s' n, OF keep rest] limiter_run_Cons [OF rl, of rs] False
      by (simp add: decisions_for_Cons m_def)
  next
    case True
    define d where "d = (if max_hits opts < n + 1 then Respond Rejected else Next)"
    define s' where "s' = s(k \<mapsto> (n + 1, reset))"
    from True Cons.prems have rl: "rateLimit opts s r = (d, s')"
      using rateLimit_in_window [where s = s and r = r and n = n and reset = reset and opts = opts]
      by (simp add: d_def s'_def)
    have entry: "s' k = Some (Suc n, reset)" by (simp add: s'_def)
    from True have count: "length (filter (\<lambda>r. ip r = k) (r # rs)) = Suc m"
      by (simp add: m_def)
    from Cons.IH [of s' "Suc n", OF entry rest]
    have ih1: "decisions_for k rs (limiter_run opts s' rs) =
        replicate (min m (max_hits opts - Suc n)) Next @
        replicate (m - (max_hits opts - Suc n)) (Respond Rejected)"
      and ih2: "limiter_final opts s' rs k = Some (Suc n + m, reset)"
      by (simp_all add: m_def)
    have run: "decisions_for k (r # rs) (limiter_run opts s (r # rs)) =
        d # decisions_for k rs (limiter_run opts s' rs)"
      using limiter_run_Cons [OF rl, of rs] True
      by (simp add: decisions_for_Cons del: limiter_run.simps limiter_final.simps)
    have fin: "limiter_final opts s (r # rs) k = Some (n + Suc m, reset)"
      using limiter_run_Cons [OF rl, of rs] ih2 by simp
    have "d # replicate (min m (max_hits opts - Suc n)) Next @
        replicate (m - (max_hits opts - Suc n)) (Respond Rejected) =
        replicate (min (Suc m) (max_hits opts - n)) Next @
        replicate (Suc m - (max_hits opts - n)) (Respond Rejected)"
    proof (cases "n < max_hits opts")
      case True
      then have "d = Next" by (simp add: d_def)
      with True show ?thesis using replicate_step_pass [where n = n and c = "max_hits opts"] by simp
    next
      case False
      then have "d = Respond Rejected" by (simp add: d_def)
      with False show ?thesis by simp
    qed
    with run ih1 fin show ?thesis
      unfolding count by simp
  qed
qed


text \<open>
  C3. Take any client key and a request of that client that opens a window (the store has
  no entry for the key, or an expired one), followed by any requests, of this and of other
  clients, where this client's requests arrive less than 15 minutes after the first.
  Then the limiter hands on the client's first 100 requests and rejects the 101st and every
  later one. Once the 15 minutes have elapsed, a request of the client is handed on again,
  and the counter restarts at one.
\<close>

theorem rate_limit_window:
  assumes key: "ip r0 = k"
    and fresh: "s k = None \<or> (\<exists>n reset. s k = Some (n, reset) \<and> reset \<le> time r0)"
    and window: "\<forall>r \<in> set rs. ip r = k \<longrightarrow> time r < time r0 + 15 * 60 * 1000"
  shows "decisions_for k (r0 # rs) (limiter_run limiter s (r0 # rs)) =
           replicate (min (length (filter (\<lambda>r. ip r = k) (r0 # rs))) 100) Next @
           replicate (length (filter (\<lambda>r. ip r = k) (r0 # rs)) - 100) (Respond Rejected)
       \<and> (\<forall>r. ip r = k \<and> time r0 + 15 * 60 * 1000 \<le> time r \<longrightarrow>
            fst (rateLimit limiter (limiter_final limiter s (r0 # rs)) r) = Next
            \<and> snd (rateLimit limiter (limiter_final limiter s (r0 # rs)) r) k =
                Some (1, time r + 15 * 60 * 1000))"
proof -
  define m where "m = length (filter (\<lambda>r. ip r = k) rs)"
  define reset where "reset = time r0 + 15 * 60 * 1000"
  define s' where "s' = s(k \<mapsto> (1, reset))"
  have opts: "windowMs limiter = 15 * 60 * 1000" "max_hits limiter = 100"
    by (simp_all add: limiter_def)
  from key fresh have first: "rateLimit limiter s r0 = (Next, s')"
    using rateLimit_new_window [where s = s and r = r0 and opts = limiter]
    by (simp add: opts s'_def reset_def)
  have entry: "s' k = Some (1, reset)" by (simp add: s'_def)
  from window have rest: "\<forall>r \<in> set rs. ip r = k \<longrightarrow> time r < reset"
    by (simp add: reset_def)
  from limiter_run_in_window [where opts = limiter and s = s' and k = k and n = 1
      and reset = reset and rs = rs, OF entry rest]
  have later: "decisions_for k rs (limiter_run limiter s' rs) =
      replicate (min m (100 - Suc 0)) Next @ replicate (m - (100 - Suc 0)) (Respond Rejected)"
    and final: "limiter_final limiter s' rs k = Some (1 + m, reset)"
    by (simp_all add: opts m_def)
  from key have count: "length (filter (\<lambda>r. ip r = k) (r0 # rs)) = Suc m"
    by (simp add: m_def)
  have run: "decisions_for k (r0 # rs) (limiter_run limiter s (r0 # rs)) =
      Next # decisions_for k rs (limiter_run limiter s' rs)"
    using limiter_run_Cons [OF first, of rs] key
    by (simp add: decisions_for_Cons del: limiter_run.simps limiter_final.simps)
  have fin: "limiter_final limiter s (r0 # rs) k = Some (1 + m, reset)"
    using limiter_run_Cons [OF first, of rs] final by simp
  have decisions: "decisions_for k (r0 # rs) (limiter_run limiter s (r0 # rs)) =
      replicate (min (Suc m) 100) Next @ replicate (Suc m - 100) (Respond Rejected)"
    using run later replicate_step_pass [where n = 0 and c = 100 and m = m and x = Next
        and y = "Respond Rejected"]
    by simp
  have after: "fst (rateLimit limiter (limiter_final limiter s (r0 # rs)) r) = Next
      \<and> snd (rateLimit limiter (limiter_final limiter s (r0 # rs)) r) k =
          Some (1, time r + 15 * 60 * 1000)"
    if "ip r = k" and "reset \<le> time r" for r
    using that fin
      rateLimit_new_window [where s = "limiter_final limiter s (r0 # rs)" and r = r
        and opts = limiter]
    by (simp add: opts)
  from decisions after show ?thesis
    unfolding count by (simp add: reset_def)
qed

theorem rate_limit_window_witness:
  "decisions_for ''10.0.0.1''
     (\<lparr>meth = GET, path = ''/health'', ip = ''10.0.0.1'', time = 0\<rparr> #
      replicate 100 \<lparr>meth = GET, path = ''/health'', ip = ''10.0.0.1'', time = 899999\<rparr>)
     (limiter_run limiter Map.empty
       (\<lparr>meth = GET, path = ''/health'', ip = ''10.0.0.1'', time = 0\<rparr> #
        replicate 100 \<lparr>meth = GET, path = ''/health'', ip = ''10.0.0.1'', time = 899999\<rparr>)) =
   replicate 100 Next @ [Respond Rejected]
   \<and> fst (rateLimit limiter
        (limiter_final limiter Map.empty
          (\<lparr>meth = GET, path = ''/health'', ip = ''10.0.0.1'', time = 0\<rparr> #
           replicate 100 \<lparr>meth = GET, path = ''/health'', ip = ''10.0.0.1'', time = 899999\<rparr>))
        \<lparr>meth = GET, path = ''/health'', ip = ''10.0.0.1'', time = 900000\<rparr>) = Next"
proof -
  let ?r0 = "\<lparr>meth = GET, path = ''/health'', ip = ''10.0.0.1'', time = 0\<rparr>"
  let ?r1 = "\<lparr>meth = GET, path = ''/health'', ip = ''10.0.0.1'', time = 899999\<rparr>"
  let ?r2 = "\<lparr>meth = GET, path = ''/health'', ip = ''10.0.0.1'', time = 900000\<rparr>"
  have key: "ip ?r0 = ''10.0.0.1''" by simp
  have fresh: "Map.empty ''10.0.0.1'' = None
      \<or> (\<exists>n reset. Map.empty ''10.0.0.1'' = Some (n, reset) \<and> reset \<le> time ?r0)"
    by simp
  have window: "\<forall>r \<in> set (replicate 100 ?r1).
      ip r = ''10.0.0.1'' \<longrightarrow> time r < time ?r0 + 15 * 60 * 1000"
    by simp
  have count: "length (filter (\<lambda>r. ip r = ''10.0.0.1'') (?r0 # replicate 100 ?r1)) = 101"
    by simp
  from rate_limit_window [OF key fresh window] show ?thesis
    unfolding count by simp
qed

section \<open>Serving a request\<close>

lemma global_match:
  "match_layer \<lparr>verb = None, mount = ''/'', exact = False, fn = f\<rparr> r = Hit"
  by (simp add: match_layer_def layer_match_def method_match_def path_match_def)

lemma global_strip: "strip_mount \<lparr>verb = None, mount = ''/'', exact = False, fn = f\<rparr> r = r"
  by (simp add: strip_mount_def)

lemma handle_forward:
  assumes "run_handler c f r = Next"
    and "f \<in> {Helmet, Cors, Hpp, Express_json, Express_urlencoded True, Compression}"
  shows "handle c lg (\<lparr>verb = None, mount = ''/'', exact = False, fn = f\<rparr> # ls) r st =
     handle c lg ls r st"
  using assms by (auto simp: global_match global_strip)

lemma handle_limiter:
  "handle c lg (\<lparr>verb = None, mount = ''/'', exact = False, fn = Limiter opts\<rparr> # ls) r st =
     (case rateLimit opts (hits st) r of
        (Next, s') \<Rightarrow> handle c lg ls r (st\<lparr>hits := s'\<rparr>)
      | (Respond res, s') \<Rightarrow> (res, st\<lparr>hits := s'\<rparr>)
      | (Throw err, s') \<Rightarrow> handle_error c lg ls err r (st\<lparr>hits := s'\<rparr>))"
  by (simp add: global_match)

lemma handle_morgan:
  "handle c lg (\<lparr>verb = None, mount = ''/'', exact = False, fn = Morgan fmt\<rparr> # ls) r st =
     (case handle c lg ls r st of
        (res, st') \<Rightarrow>
          (res, st'\<lparr>logged := log_write lg Info (trim (combined c r res)) (logged st')\<rparr>))"
  by (simp add: global_match)

lemma handle_error_skip:
  "f \<noteq> ErrorHandler \<Longrightarrow>
     handle_error c lg (\<lparr>verb = v, mount = m, exact = e, fn = f\<rparr> # ls) err r st =
       handle_error c lg ls err r st"
  by simp

lemma serve_forwarded:
  assumes "forwards c r"
  shows "serve c cfg r st =
     (case rateLimit limiter (hits st) r of
        (Next, s') \<Rightarrow>
          (case handle c (createLogger cfg) routing r (st\<lparr>hits := s'\<rparr>) of
             (res, st') \<Rightarrow>
               (res, st'\<lparr>logged := log_write (createLogger cfg) Info (trim (combined c r res))
                               (logged st')\<rparr>))
      | (Respond res, s') \<Rightarrow> (res, st\<lparr>hits := s'\<rparr>)
      | (Throw err, s') \<Rightarrow>
          handle_error c (createLogger cfg) (drop 4 createApp) err r (st\<lparr>hits := s'\<rparr>))"
proof -
  from assms have next_stage:
    "run_handler c Helmet r = Next" "run_handler c Cors r = Next" "run_handler c Hpp r = Next"
    "run_handler c Express_json r = Next" "run_handler c (Express_urlencoded True) r = Next"
    "run_handler c Compression r = Next"
    by (simp_all add: forwards_def run_handler_def)
  have tail: "drop 4 createApp =
      \<lparr>verb = None, mount = ''/'', exact = False, fn = Express_json\<rparr> #
      \<lparr>verb = None, mount = ''/'', exact = False, fn = Express_urlencoded True\<rparr> #
      \<lparr>verb = None, mount = ''/'', exact = False, fn = Compression\<rparr> #
      \<lparr>verb = None, mount = ''/'', exact = False, fn = Morgan ''combined''\<rparr> # routing"
    by (simp add: routing_def createApp_layers)
  have head: "createApp =
      \<lparr>verb = None, mount = ''/'', exact = False, fn = Helmet\<rparr> #
      \<lparr>verb = None, mount = ''/'', exact = False, fn = Cors\<rparr> #
      \<lparr>verb = None, mount = ''/'', exact = False, fn = Hpp\<rparr> #
      \<lparr>verb = None, mount = ''/'', exact = False, fn = Limiter limiter\<rparr> # drop 4 createApp"
    by (simp add: createApp_layers)
  have before: "handle c lg createApp r st =
      handle c lg (\<lparr>verb = None, mount = ''/'', exact = False, fn = Limiter limiter\<rparr> #
        drop 4 createApp) r st" for lg st
    by (subst head) (simp add: handle_forward next_stage del: handle.simps)
  have after: "handle c lg (drop 4 createApp) r st =
      (case handle c lg routing r st of
         (res, st') \<Rightarrow>
           (res, st'\<lparr>logged := log_write lg Info (trim (combined c r res)) (logged st')\<rparr>))"
    for lg st
    unfolding tail by (simp add: handle_forward handle_morgan next_stage del: handle.simps)
  show ?thesis
    unfolding serve_def before handle_limiter
    by (simp add: after split: prod.splits outcome.splits)
qed

lemmas match_defs =
  match_layer_def layer_match_def method_match_def path_match_def strip_slash_def lower_def

lemmas decode_defs = decodable_def hex_digit_def continuation_def

lemma decodable_Nil: "decodable []"
  by (simp add: decodable_def)

lemma handle_routing_health:
  assumes "meth r = GET" and "path r = ''/health''"
  shows "handle c lg routing r st = (Json 200 (JObject [(''status'', JString ''ok'')]), st)"
  using assms by (simp add: routing_layers match_defs run_handler_def)

lemma unmatched_layers:
  assumes "unmatched r"
  shows "match_layer \<lparr>verb = None, mount = ''/api-docs'', exact = False, fn = Swagger_serve\<rparr> r = Miss"
    and "match_layer \<lparr>verb = None, mount = ''/api-docs'', exact = False, fn = Swagger_setup\<rparr> r = Miss"
    and "match_layer \<lparr>verb = Some GET, mount = ''/api-docs.json'', exact = True, fn = Api_docs_json\<rparr> r = Miss"
    and "match_layer \<lparr>verb = Some GET, mount = ''/health'', exact = True, fn = Health\<rparr> r = Miss"
    and "match_layer \<lparr>verb = Some GET, mount = ''/'', exact = True, fn = Index\<rparr> r = Miss"
  using assms by (simp_all add: unmatched_def createApp_layers routed_def match_layer_def)

lemma unmatched_router:
  assumes "unmatched r"
    and "match_layer \<lparr>verb = None, mount = ''/api'', exact = False, fn = Routes\<rparr> r = Hit"
  shows "router_handle c routes
           (strip_mount \<lparr>verb = None, mount = ''/api'', exact = False, fn = Routes\<rparr> r) = Next"
proof -
  from assms(2)
  have "layer_match \<lparr>verb = None, mount = ''/api'', exact = False, fn = Routes\<rparr> r"
    by (simp add: match_layer_def split: if_splits)
  with assms(1) show ?thesis
    by (simp add: unmatched_def createApp_layers routed_def routes_def app_use_def express_def
        match_layer_def)
qed

lemma router_never_broken:
  "match_layer \<lparr>verb = None, mount = ''/api'', exact = False, fn = Routes\<rparr> r \<noteq> Broken err"
  by (simp add: match_layer_def)

lemma star_match:
  "decodable (path r) \<Longrightarrow>
     match_layer \<lparr>verb = None, mount = ''*'', exact = False, fn = f\<rparr> r = Hit"
  by (simp add: match_layer_def decode_param_def)

lemma star_broken:
  "\<not> decodable (path r) \<Longrightarrow>
     match_layer \<lparr>verb = None, mount = ''*'', exact = False, fn = f\<rparr> r =
       Broken (Unclassified (''Failed to decode param '' @ [CHR 0x27] @ path r @ [CHR 0x27]))"
  using decodable_Nil by (auto simp: match_layer_def decode_param_def)

lemma handle_routing_unmatched:
  assumes "unmatched r" and "decodable (path r)"
  shows "handle c lg routing r st = (Json 404 (error_body ''Route not found''), st)"
proof (cases "match_layer \<lparr>verb = None, mount = ''/api'', exact = False, fn = Routes\<rparr> r")
  case Miss
  with unmatched_layers [OF assms(1)] star_match [OF assms(2)] show ?thesis
    by (simp add: routing_layers run_handler_def)
next
  case Hit
  with unmatched_layers [OF assms(1)] unmatched_router [OF assms(1) Hit]
    star_match [OF assms(2)]
  show ?thesis
    by (simp add: routing_layers run_handler_def)
next
  case (Broken err)
  with router_never_broken show ?thesis by blast
qed

text \<open>
  A path that does not decode never reaches the catch-all responder: its layer fails to
  match, and the error boundary answers.
\<close>

lemma handle_routing_malformed:
  assumes "unmatched r" and "\<not> decodable (path r)"
  shows "handle c lg routing r st =
     errorHandler c lg
       (Unclassified (''Failed to decode param '' @ [CHR 0x27] @ path r @ [CHR 0x27])) st"
proof (cases "match_layer \<lparr>verb = None, mount = ''/api'', exact = False, fn = Routes\<rparr> r")
  case Miss
  with unmatched_layers [OF assms(1)] star_broken [OF assms(2)] show ?thesis
    by (simp add: routing_layers run_handler_def global_match)
next
  case Hit
  with unmatched_layers [OF assms(1)] unmatched_router [OF assms(1) Hit]
    star_broken [OF assms(2)]
  show ?thesis
    by (simp add: routing_layers run_handler_def global_match)
next
  case (Broken err)
  with router_never_broken show ?thesis by blast
qed

lemma serve_passes:
  assumes "passes c r st"
  shows "serve c cfg r st =
     (case handle c (createLogger cfg) routing r
             (st\<lparr>hits := snd (rateLimit limiter (hits st) r)\<rparr>) of
        (res, st') \<Rightarrow>
          (res, st'\<lparr>logged := log_write (createLogger cfg) Info (trim (combined c r res))
                          (logged st')\<rparr>))"
proof -
  from assms have fw: "forwards c r" and adm: "fst (rateLimit limiter (hits st) r) = Next"
    by (simp_all add: passes_def)
  obtain s' where "rateLimit limiter (hits st) r = (Next, s')"
    using adm by (cases "rateLimit limiter (hits st) r") simp
  then show ?thesis
    by (simp add: serve_forwarded [OF fw])
qed

text \<open>
  C9. A GET request for \<^verbatim>\<open>/health\<close> that gets past the stages registered ahead of the routes
  is answered with status 200 and the body \<^verbatim>\<open>{status: "ok"}\<close>.
\<close>

theorem health_reaching_routes:
  assumes "meth r = GET" and "path r = ''/health''" and "passes c r st"
  shows "fst (serve c cfg r st) = Json 200 (JObject [(''status'', JString ''ok'')])"
  using assms by (simp add: serve_passes handle_routing_health)

theorem health_reaching_routes_witness:
  "fst (serve quiet default_config probe initial) = Json 200 (JObject [(''status'', JString ''ok'')])"
proof -
  have "passes quiet probe initial"
    by (simp add: passes_def forwards_def quiet_def probe_def initial_def rateLimit_def
        increment_def limiter_def)
  moreover have "meth probe = GET" and "path probe = ''/health''"
    by (simp_all add: probe_def)
  ultimately show ?thesis
    using health_reaching_routes [of probe quiet initial default_config] by simp
qed


lemma rateLimit_changes: "snd (rateLimit limiter s r) (ip r) \<noteq> s (ip r)"
  by (auto simp: rateLimit_def increment_def limiter_def split: option.splits)

lemma info_destinations:
  "destinations (createLogger cfg) Info = [Console, File ''combined.log'']"
  by (simp add: destinations_cases)

lemma error_destinations:
  "destinations (createLogger cfg) Error = [Console, File ''error.log'', File ''combined.log'']"
  by (simp add: destinations_cases)

lemma forwards_quiet: "forwards quiet r"
  by (simp add: forwards_def quiet_def)

lemma serve_in_window:
  assumes "forwards c r"
    and "\<And>st. handle c (createLogger cfg) routing r st = (answer, st)"
    and "hits st (ip r) = Some (n, reset)" and "time r < reset"
  shows "fst (serve c cfg r st) = (if n < 100 then answer else Rejected)
       \<and> hits (snd (serve c cfg r st)) = (hits st)(ip r \<mapsto> (n + 1, reset))"
  using assms(3,4)
  by (simp add: serve_forwarded [OF assms(1)] assms(2)
      rateLimit_in_window [where n = n and reset = reset] limiter_def)

lemma serve_all_in_window:
  assumes "forwards c r"
    and "\<And>st. handle c (createLogger cfg) routing r st = (answer, st)"
    and "time r < reset"
  shows "hits st (ip r) = Some (n, reset) \<Longrightarrow>
     fst (serve_all c cfg (replicate m r) st) =
       replicate (min m (100 - n)) answer @ replicate (m - (100 - n)) Rejected"
proof (induction m arbitrary: st n)
  case 0
  then show ?case by simp
next
  case (Suc m)
  obtain res st' where step: "serve c cfg r st = (res, st')"
    by (cases "serve c cfg r st")
  from serve_in_window [OF assms(1,2) Suc.prems assms(3)] step
  have res: "res = (if n < 100 then answer else Rejected)"
    and entry: "hits st' (ip r) = Some (Suc n, reset)"
    by simp_all
  from Suc.IH [OF entry]
  have rest: "fst (serve_all c cfg (replicate m r) st') =
      replicate (min m (100 - Suc n)) answer @ replicate (m - (100 - Suc n)) Rejected" .
  have "fst (serve_all c cfg (replicate (Suc m) r) st) =
      res # fst (serve_all c cfg (replicate m r) st')"
    using step by (simp split: prod.splits)
  with rest res show ?case
    using replicate_step_pass [where n = n and c = 100 and m = m and x = answer
        and y = Rejected]
    by (cases "n < 100") simp_all
qed

text \<open>One client sends the same request 101 times, starting with an empty store.\<close>

lemma serve_all_101:
  assumes "forwards c r"
    and "\<And>st. handle c (createLogger cfg) routing r st = (answer, st)"
  shows "fst (serve_all c cfg (replicate 101 r) initial) = replicate 100 answer @ [Rejected]"
proof -
  have first: "rateLimit limiter (hits initial) r =
      (Next, [ip r \<mapsto> (1, time r + 900000)])"
    by (simp add: rateLimit_def increment_def limiter_def initial_def)
  obtain st' where step: "serve c cfg r initial = (answer, st')"
    and entry: "hits st' = [ip r \<mapsto> (1, time r + 900000)]"
    using first by (simp add: serve_forwarded [OF assms(1)] assms(2))
  have clock: "time r < time r + 900000" by simp
  have entry': "hits st' (ip r) = Some (1, time r + 900000)"
    by (simp add: entry)
  from serve_all_in_window [OF assms clock entry', of 100]
  have rest: "fst (serve_all c cfg (replicate 100 r) st') = replicate 99 answer @ [Rejected]"
    by simp
  have split: "replicate 101 r = r # replicate 100 r"
    using replicate_Suc [of 100 r] by simp
  have one: "replicate 100 answer = answer # replicate 99 answer"
    using replicate_Suc [of 99 answer] by simp
  show ?thesis
    unfolding split one using step rest by (auto split: prod.splits)
qed

text \<open>
  C5, as stated, fails. One client sends the liveness probe 101 times: the first 100
  answers are 200 with \<^verbatim>\<open>{status: "ok"}\<close>, the 101st is the limiter's rejection. And the
  very first probe changes shared state: the limiter's store holds a counter for the client
  where it held none.
\<close>

theorem health_probe_not_idempotent:
  "fst (serve_all quiet default_config (replicate 101 probe) initial) =
     replicate 100 (Json 200 (JObject [(''status'', JString ''ok'')])) @ [Rejected]
   \<and> hits initial ''10.0.0.1'' = None
   \<and> hits (snd (serve quiet default_config probe initial)) ''10.0.0.1'' = Some (1, 900000)"
proof -
  have facts: "meth probe = GET" "path probe = ''/health''"
    by (simp_all add: probe_def)
  have "hits (snd (serve quiet default_config probe initial)) ''10.0.0.1'' = Some (1, 900000)"
    using facts
    by (simp add: serve_forwarded [OF forwards_quiet] handle_routing_health rateLimit_def
        increment_def limiter_def initial_def probe_def)
  then show ?thesis
    using serve_all_101 [OF forwards_quiet handle_routing_health [OF facts]]
    by (simp add: initial_def)
qed

text \<open>
  C5, amended. A GET request for \<^verbatim>\<open>/health\<close> that gets past the stages ahead of the routes
  is answered with status 200 and \<^verbatim>\<open>{status: "ok"}\<close>, whatever the state, so repeating it
  yields the same answer for as long as the limiter admits it. The handler itself touches no
  state, but serving the request does: the limiter's entry for the client changes, and the
  access logger appends one \<open>info\<close> line to the console and to \<^verbatim>\<open>combined.log\<close>.
\<close>

theorem health_probe_effects:
  assumes "meth r = GET" and "path r = ''/health''" and "passes c r st"
  shows "fst (serve c cfg r st) = Json 200 (JObject [(''status'', JString ''ok'')])
       \<and> handle c (createLogger cfg) routing r st =
           (Json 200 (JObject [(''status'', JString ''ok'')]), st)
       \<and> hits (snd (serve c cfg r st)) = snd (rateLimit limiter (hits st) r)
       \<and> hits (snd (serve c cfg r st)) (ip r) \<noteq> hits st (ip r)
       \<and> logged (snd (serve c cfg r st)) =
           logged st @
           [(Console, Info, trim (combined c r (Json 200 (JObject [(''status'', JString ''ok'')])))),
            (File ''combined.log'', Info,
             trim (combined c r (Json 200 (JObject [(''status'', JString ''ok'')]))))]"
  using assms(1,2) rateLimit_changes [of "hits st" r]
  by (simp add: serve_passes [OF assms(3)] handle_routing_health log_write_def info_destinations)

theorem health_probe_effects_witness:
  "fst (serve quiet default_config probe initial) = Json 200 (JObject [(''status'', JString ''ok'')])
   \<and> hits (snd (serve quiet default_config probe initial)) ''10.0.0.1'' = Some (1, 900000)
   \<and> logged (snd (serve quiet default_config probe initial)) =
       [(Console, Info, ''/health''), (File ''combined.log'', Info, ''/health'')]"
proof -
  have pass: "passes quiet probe initial"
    by (simp add: passes_def forwards_quiet rateLimit_def increment_def limiter_def probe_def
        initial_def)
  have facts: "meth probe = GET" "path probe = ''/health''"
    by (simp_all add: probe_def)
  have line: "trim (combined quiet probe res) = ''/health''" for res
    by (simp add: trim_def quiet_def probe_def is_space_def)
  have store: "snd (rateLimit limiter Map.empty probe) ''10.0.0.1'' = Some (1, 900000)"
    by (simp add: rateLimit_def increment_def limiter_def probe_def)
  from health_probe_effects [OF facts pass, of default_config] show ?thesis
    by (simp add: line store initial_def)
qed

text \<open>
  C8, as stated, fails. A path that no registered route matches is requested 101 times by one
  client: the first 100 answers are the 404, the 101st is the limiter's rejection.
\<close>

theorem unmatched_request_rejected:
  "unmatched stray
   \<and> fst (serve_all quiet default_config (replicate 101 stray) initial) =
       replicate 100
         (Json 404 (JObject [(''status'', JString ''error''),
            (''message'', JString ''Route not found'')])) @ [Rejected]"
proof -
  have un: "unmatched stray"
    by (simp add: unmatched_def createApp_layers routed_def match_defs stray_def)
  have dec: "decodable (path stray)"
    by (simp add: stray_def decode_defs)
  from serve_all_101 [OF forwards_quiet handle_routing_unmatched [OF un dec]] un
  show ?thesis by (simp add: error_body_def)
qed

text \<open>
  C8, amended. A request, of any method, that gets past the stages registered ahead of the
  routes, that no registered route matches, and whose path decodes (no malformed
  percent-escape) is answered with status 404 and the body
  \<^verbatim>\<open>{status: "error", message: "Route not found"}\<close>.
\<close>

theorem unmatched_request_404:
  assumes "unmatched r" and "passes c r st" and "decodable (path r)"
  shows "fst (serve c cfg r st) =
     Json 404 (JObject [(''status'', JString ''error''), (''message'', JString ''Route not found'')])"
  by (simp add: serve_passes [OF assms(2)] handle_routing_unmatched [OF assms(1,3)]
      error_body_def)

lemma passes_quiet_initial: "passes quiet r initial"
  by (simp add: passes_def forwards_quiet rateLimit_def increment_def limiter_def initial_def)

theorem unmatched_request_404_witness:
  "fst (serve quiet default_config stray initial) =
     Json 404 (JObject [(''status'', JString ''error''), (''message'', JString ''Route not found'')])
   \<and> fst (serve quiet default_config stray_api initial) =
     Json 404 (JObject [(''status'', JString ''error''), (''message'', JString ''Route not found'')])"
proof -
  have un: "unmatched stray"
    by (simp add: unmatched_def createApp_layers routed_def match_defs stray_def)
  have dec: "decodable (path stray)"
    by (simp add: stray_def decode_defs)
  have un_api: "unmatched stray_api"
    by (simp add: unmatched_def createApp_layers routed_def match_defs stray_api_def
        routes_def app_use_def express_def strip_mount_def)
  have dec_api: "decodable (path stray_api)"
    by (simp add: stray_api_def decode_defs)
  from unmatched_request_404 [OF un passes_quiet_initial dec]
    unmatched_request_404 [OF un_api passes_quiet_initial dec_api]
  show ?thesis by simp
qed

text \<open>
  The two requests that the amended C8 leaves out on purpose. A path with a malformed
  percent-escape matches no registered route, yet the answer comes from the error boundary.
  A doubled slash after \<^verbatim>\<open>/api\<close> does not hide the health router: the request is not an
  unmatched one.
\<close>

lemma malformed_escape_reaches_boundary:
  "unmatched stray_escape \<and> \<not> decodable (path stray_escape)
   \<and> serve quiet default_config stray_escape initial =
       (case errorHandler quiet (createLogger default_config)
               (Unclassified (''Failed to decode param '' @ [CHR 0x27] @ ''/%zz'' @ [CHR 0x27]))
               (initial\<lparr>hits := [''10.0.0.3'' \<mapsto> (1, 900000)]\<rparr>) of
          (res, st') \<Rightarrow>
            (res, st'\<lparr>logged := log_write (createLogger default_config) Info
                            (trim (combined quiet stray_escape res)) (logged st')\<rparr>))"
proof -
  have un: "unmatched stray_escape"
    by (simp add: unmatched_def createApp_layers routed_def match_defs stray_escape_def)
  have bad: "\<not> decodable (path stray_escape)"
    by (simp add: stray_escape_def decode_defs)
  have store: "snd (rateLimit limiter (hits initial) stray_escape) =
      [''10.0.0.3'' \<mapsto> (1, 900000)]"
    by (simp add: rateLimit_def increment_def limiter_def initial_def stray_escape_def)
  have pth: "path stray_escape = ''/%zz''"
    by (simp add: stray_escape_def)
  from un bad show ?thesis
    by (simp add: serve_passes [OF passes_quiet_initial] handle_routing_malformed [OF un bad]
        store pth)
qed

lemma doubled_slash_reaches_router:
  "\<not> unmatched \<lparr>meth = GET, path = ''/api//health'', ip = ''10.0.0.4'', time = 0\<rparr>"
  by (simp add: unmatched_def createApp_layers routed_def match_defs routes_def app_use_def
      express_def strip_mount_def)

text \<open>
  C2. The error boundary answers a failure of the Application Error shape with the status
  code it carries and the body \<^verbatim>\<open>{status: "error", message}\<close>, and writes nothing. Any other
  failure it logs in full, at level \<open>error\<close>, to the console, \<^verbatim>\<open>error.log\<close> and
  \<^verbatim>\<open>combined.log\<close>, and answers with status 500 and the same shape carrying the generic
  message: the answer does not depend on the failure's detail. In the application's stack a
  failure reaches this boundary.
\<close>

theorem errorHandler_contract:
  "errorHandler c (createLogger cfg) (CustomError message statusCode) st =
     (Json statusCode (JObject [(''status'', JString ''error''), (''message'', JString message)]),
      st)
   \<and> errorHandler c (createLogger cfg) (Unclassified detail) st =
     (Json 500 (JObject [(''status'', JString ''error''),
        (''message'', JString (generic_message c))]),
      st\<lparr>logged := logged st @
         [(Console, Error, detail), (File ''error.log'', Error, detail),
          (File ''combined.log'', Error, detail)]\<rparr>)
   \<and> handle_error c (createLogger cfg) createApp err r st =
       errorHandler c (createLogger cfg) err st"
  by (simp add: errorHandler_def error_body_def log_write_def error_destinations
      createApp_layers global_match)

theorem errorHandler_contract_witness:
  "errorHandler quiet (createLogger default_config)
     (new_CustomError ''Resource not found'' (Some 404)) initial =
     (Json 404 (JObject [(''status'', JString ''error''),
        (''message'', JString ''Resource not found'')]), initial)
   \<and> fst (errorHandler quiet (createLogger default_config) (Unclassified ''boom'') initial) =
     Json 500 (JObject [(''status'', JString ''error''),
        (''message'', JString ''Internal Server Error'')])
   \<and> logged (snd (errorHandler quiet (createLogger default_config) (Unclassified ''boom'')
        initial)) =
     [(Console, Error, ''boom''), (File ''error.log'', Error, ''boom''),
      (File ''combined.log'', Error, ''boom'')]"
  using errorHandler_contract [of quiet default_config "''Resource not found''" 404 initial
      "''boom''"]
  by (simp add: new_CustomError_def quiet_def initial_def)

end
